theory Spec2Isabelle
  imports Complex_Main
begin

section \<open>Values shared by the scripts\<close>

text \<open>
  A public key is kept as its base58 text; \<open>new PublicKey(s)\<close> is taken to accept the text
  it is given. Lamport amounts are JavaScript numbers that hold integers, modelled as
  \<open>int\<close>. \<open>LAMPORTS_PER_SOL\<close> is the SDK's constant \<open>1000000000\<close>.
\<close>

type_synonym pubkey = string

record http_response =
  status :: nat
  data :: "string option"

text \<open>
  What a \<open>throw\<close> or a rejected promise carries: an \<open>Error\<close> with its message, or an
  axios error with its message and, when the server answered, the response.
\<close>

datatype js_error =
    Error string
  | AxiosError string "http_response option"

fun message :: "js_error \<Rightarrow> string" where
  "message (Error m) = m"
| "message (AxiosError m r) = m"

fun response :: "js_error \<Rightarrow> http_response option" where
  "response (Error m) = None"
| "response (AxiosError m r) = r"

fun isAxiosError :: "js_error \<Rightarrow> bool" where
  "isAxiosError (Error m) = False"
| "isAxiosError (AxiosError m r) = True"

text \<open>
  The lines written by \<open>console.warn\<close> and \<open>console.error\<close>, in order. Pictographs and
  leading line breaks of the messages are left out, and so are the lines that only print
  amounts. \<open>console.log\<close> output is not recorded.
\<close>

datatype log_line = Warn string | Err string

definition truthy :: "string option \<Rightarrow> bool" where
  "truthy v = (case v of None \<Rightarrow> False | Some s \<Rightarrow> s \<noteq> [])"

text \<open>A natural number in decimal, as a template literal prints it.\<close>

fun string_of_nat :: "nat \<Rightarrow> string" where
  "string_of_nat n =
     (if n < 10 then [''0123456789'' ! n]
      else string_of_nat (n div 10) @ [''0123456789'' ! (n mod 10)])"

section \<open>utils.ts: configuration\<close>

record config =
  USE_LIGHTSPEED :: bool
  DEFAULT_RECIPIENT :: pubkey
  WALLET_PATH :: string
  RPC_ENDPOINT :: string
  RPC_LIGHTSPEED_ENDPOINT :: string

definition LAMPORTS_PER_SOL :: int where
  "LAMPORTS_PER_SOL = 1000000000"

definition TIPS_VIBE_FEE :: int where
  "TIPS_VIBE_FEE = 1000000"

definition TIPS_VIBE_STATION :: pubkey where
  "TIPS_VIBE_STATION = ''53PhM3UTdMQWu5t81wcd35AHGc5xpmHoRjem7GQPvXjA''"

definition DEFAULT_RECIPIENT_placeholder :: pubkey where
  "DEFAULT_RECIPIENT_placeholder = ''So11111111111111111111111111111111111111112''"


definition selectedEndpoint :: "config \<Rightarrow> string" where
  "selectedEndpoint cfg =
     (if USE_LIGHTSPEED cfg then RPC_LIGHTSPEED_ENDPOINT cfg else RPC_ENDPOINT cfg)"

section \<open>Instructions and transactions\<close>

text \<open>
  An instruction is named by the SDK call that builds it, with that call's arguments.
  \<open>Deserialized\<close> is what \<open>deserializeInstruction\<close> of the swap script builds from an
  aggregator instruction: program id, account metas (key, signer, writable) and base64 data.
\<close>

record raw_instruction =
  programId :: string
  accounts :: "(pubkey \<times> bool \<times> bool) list"
  data64 :: string

datatype instruction =
    SetComputeUnitLimit nat
  | SetComputeUnitPrice nat
  | SystemTransfer pubkey pubkey int
  | CreateAssociatedTokenAccount pubkey pubkey pubkey pubkey
  | TokenTransfer pubkey pubkey pubkey nat
  | Deserialized pubkey "(pubkey \<times> bool \<times> bool) list" string

type_synonym lookup_table = string

record transaction =
  payerKey :: pubkey
  recentBlockhash :: string
  instructions :: "instruction list"
  lookupTables :: "lookup_table list"

text \<open>
  \<open>addLightSpeedTip\<close> (utils.ts 68 to 82) pushes onto the caller's array; the model returns
  the array after the call.
\<close>

definition tip_instruction :: "pubkey \<Rightarrow> instruction" where
  "tip_instruction fromPubkey = SystemTransfer fromPubkey TIPS_VIBE_STATION TIPS_VIBE_FEE"

definition addLightSpeedTip :: "config \<Rightarrow> instruction list \<Rightarrow> pubkey \<Rightarrow> instruction list" where
  "addLightSpeedTip cfg instrs fromPubkey =
     (if \<not> USE_LIGHTSPEED cfg then instrs
      else instrs @ [tip_instruction fromPubkey])"

text \<open>
  \<open>addComputeBudget\<close> (utils.ts 87 to 92) unshifts the two directives; an argument that
  is left out takes its default.
\<close>

definition addComputeBudget :: "instruction list \<Rightarrow> nat option \<Rightarrow> nat option \<Rightarrow> instruction list" where
  "addComputeBudget instrs computeUnits priorityFee =
     [SetComputeUnitLimit (case computeUnits of None \<Rightarrow> 200000 | Some u \<Rightarrow> u),
      SetComputeUnitPrice (case priorityFee of None \<Rightarrow> 1000 | Some p \<Rightarrow> p)] @ instrs"

section \<open>The network, as the scripts see it\<close>

text \<open>
  Every awaited call of the SDK or of axios either rejects (\<open>Inl\<close>) or yields a value
  (\<open>Inr\<close>). The answers of one run are collected in a record. Calls that are repeated
  (submission, status query) are answered by the number of calls made before. A status
  query takes \<open>queryMillis\<close> milliseconds of wall-clock time, and the one-second timer
  of the polling loop fires \<open>timerLateMillis\<close> milliseconds after its second has passed.
\<close>

datatype commitment = Processed | Confirmed | Finalized

record signature_status =
  confirmationStatus :: "commitment option"
  err :: "string option"

datatype account_info = AccountInfo int

record quote =
  outAmount :: string
  routeLabels :: "string list"
  priceImpactPct :: string

record swap_instructions =
  computeBudgetInstructions :: "raw_instruction list"
  setupInstructions :: "raw_instruction list option"
  swapInstruction :: raw_instruction
  cleanupInstruction :: "raw_instruction option"
  addressLookupTableAddresses :: "string list option"

record world =
  loadWallet :: "string \<Rightarrow> js_error + pubkey"
  getBalance :: "pubkey \<Rightarrow> js_error + int"
  getAssociatedTokenAddress :: "pubkey \<Rightarrow> pubkey \<Rightarrow> js_error + pubkey"
  getAccountInfo :: "pubkey \<Rightarrow> js_error + account_info option"
  getParsedUiAmount :: "pubkey \<Rightarrow> js_error + rat option"
  getLatestBlockhash :: "js_error + string"
  sendRawTransaction :: "transaction \<Rightarrow> nat \<Rightarrow> js_error + string"
  getSignatureStatus :: "string \<Rightarrow> nat \<Rightarrow> js_error + signature_status option"
  queryMillis :: "nat \<Rightarrow> nat"
  timerLateMillis :: "nat \<Rightarrow> nat"
  getQuote :: "js_error + quote"
  postSwapInstructions :: "js_error + swap_instructions option"
  getAddressLookupTable :: "string \<Rightarrow> js_error + lookup_table option"

section \<open>utils.ts: submission with retries\<close>

text \<open>
  The body of the \<open>try\<close> block of \<open>sendTxWithRetries\<close> (utils.ts 103 to 112): the call
  rejects, or returns a signature; an empty signature is thrown as an error. Serialising
  the signed transaction is taken to succeed, so every attempt makes one call.
\<close>

definition try_send :: "js_error + string \<Rightarrow> js_error + string" where
  "try_send r =
     (case r of
        Inl e \<Rightarrow> Inl e
      | Inr signature \<Rightarrow>
          if signature = [] then Inl (Error ''No signature returned'') else Inr signature)"

text \<open>
  The \<open>for\<close> loop of \<open>sendTxWithRetries\<close> (utils.ts 101 to 120). The state is the attempt
  number, the number of calls of \<open>sendRawTransaction\<close> made so far and the lines logged.
  The \<open>catch\<close> clause logs and lets the loop go on; after the loop the function returns
  \<open>null\<close> (\<open>None\<close>).
\<close>

function sendTxWithRetries_loop ::
  "world \<Rightarrow> transaction \<Rightarrow> nat \<Rightarrow> nat \<Rightarrow> nat \<Rightarrow> log_line list
     \<Rightarrow> string option \<times> nat \<times> log_line list" where
  "sendTxWithRetries_loop w tx maxAttempts attempt calls lg =
     (if attempt \<le> maxAttempts then
        (case try_send (sendRawTransaction w tx calls) of
           Inr signature \<Rightarrow> (Some signature, Suc calls, lg)
         | Inl error \<Rightarrow>
             sendTxWithRetries_loop w tx maxAttempts (Suc attempt) (Suc calls)
               (lg @ [Err (''Attempt '' @ string_of_nat attempt @ '' failed: '' @ message error)]
                   @ (if attempt = maxAttempts then [Err ''Max retries reached''] else [])))
      else (None, calls, lg))"
  by pat_completeness auto
termination
  by (relation "measure (\<lambda>(w, tx, maxAttempts, attempt, calls, lg). Suc maxAttempts - attempt)") auto

definition sendTxWithRetries ::
  "world \<Rightarrow> transaction \<Rightarrow> nat option \<Rightarrow> string option \<times> nat \<times> log_line list" where
  "sendTxWithRetries w tx maxAttempts =
     sendTxWithRetries_loop w tx (case maxAttempts of None \<Rightarrow> 3 | Some m \<Rightarrow> m) 1 0 []"

section \<open>utils.ts: the balance guard\<close>

text \<open>
  \<open>checkBalanceForOperations\<close> (utils.ts 126 to 157): the balance query may reject, which
  the function does not catch; otherwise it returns a boolean.
\<close>

definition checkBalanceForOperations ::
  "config \<Rightarrow> world \<Rightarrow> pubkey \<Rightarrow> int \<Rightarrow> string option \<Rightarrow> (js_error + bool) \<times> log_line list" where
  "checkBalanceForOperations cfg w wallet requiredLamports description =
     (case getBalance w wallet of
        Inl e \<Rightarrow> (Inl e, [])
      | Inr balance \<Rightarrow>
          (let totalRequired =
                 (if USE_LIGHTSPEED cfg then requiredLamports + TIPS_VIBE_FEE
                  else requiredLamports)
           in if balance < totalRequired
              then (Inr False,
                    [Err (''Insufficient balance''
                          @ (if truthy description
                             then '' for '' @ (case description of None \<Rightarrow> [] | Some d \<Rightarrow> d)
                             else []))])
              else (Inr True, [])))"

section \<open>utils.ts: confirmation polling\<close>

record monitor_result =
  returned :: "signature_status option"
  queries :: nat
  monitor_log :: "log_line list"
  monitor_thrown :: "js_error option"

definition is_confirmed :: "signature_status option \<Rightarrow> bool" where
  "is_confirmed v =
     (case v of
        None \<Rightarrow> False
      | Some s \<Rightarrow> confirmationStatus s = Some Confirmed \<or> confirmationStatus s = Some Finalized)"

definition has_err :: "signature_status option \<Rightarrow> bool" where
  "has_err v = (case v of None \<Rightarrow> False | Some s \<Rightarrow> err s \<noteq> None)"

text \<open>
  The \<open>while\<close> loop of \<open>monitorTransactionStatus\<close> (utils.ts 166 to 185). \<open>elapsed\<close> is
  \<open>Date.now() - startTime\<close> when the loop condition is read and \<open>n\<close> the number of status
  queries made so far. The time of a query and of the timer is added to the clock.
\<close>

function monitor_loop ::
  "world \<Rightarrow> string \<Rightarrow> nat \<Rightarrow> nat \<Rightarrow> nat \<Rightarrow> monitor_result" where
  "monitor_loop w signature maxWaitTime elapsed n =
     (if elapsed < maxWaitTime then
        (case getSignatureStatus w signature n of
           Inl e \<Rightarrow>
             \<lparr> returned = None, queries = Suc n, monitor_log = [], monitor_thrown = Some e \<rparr>
         | Inr v \<Rightarrow>
             if is_confirmed v then
               \<lparr> returned = v, queries = Suc n, monitor_log = [], monitor_thrown = None \<rparr>
             else if has_err v then
               \<lparr> returned = None, queries = Suc n,
                 monitor_log =
                   [Err (''Transaction failed: ''
                         @ (case v of None \<Rightarrow> []
                            | Some s \<Rightarrow> (case err s of None \<Rightarrow> [] | Some j \<Rightarrow> j)))],
                 monitor_thrown = None \<rparr>
             else
               monitor_loop w signature maxWaitTime
                 (elapsed + queryMillis w n + 1000 + timerLateMillis w n) (Suc n))
      else
        \<lparr> returned = None, queries = n,
          monitor_log = [Err ''Transaction confirmation timeout''], monitor_thrown = None \<rparr>)"
  by pat_completeness auto
termination
  by (relation "measure (\<lambda>(w, signature, maxWaitTime, elapsed, n). maxWaitTime - elapsed)") auto

definition monitorTransactionStatus :: "world \<Rightarrow> string \<Rightarrow> nat option \<Rightarrow> monitor_result" where
  "monitorTransactionStatus w signature maxWaitTime =
     monitor_loop w signature (case maxWaitTime of None \<Rightarrow> 30000 | Some m \<Rightarrow> m) 0 0"

section \<open>What one run of a script leaves behind\<close>

text \<open>
  \<open>submitted\<close> is the signed transaction handed to \<open>sendTxWithRetries\<close>, if the script got
  that far; \<open>thrown\<close> is the error that left the script as an exception, if any.
\<close>

record run =
  stderr :: "log_line list"
  submitted :: "transaction option"
  send_calls :: nat
  signature :: "string option"
  status_queries :: nat
  confirmation :: "signature_status option"
  thrown :: "js_error option"

definition returns :: "log_line list \<Rightarrow> run" where
  "returns lg =
     \<lparr> stderr = lg, submitted = None, send_calls = 0, signature = None,
       status_queries = 0, confirmation = None, thrown = None \<rparr>"

definition throws :: "js_error \<Rightarrow> log_line list \<Rightarrow> run" where
  "throws e lg =
     \<lparr> stderr = lg, submitted = None, send_calls = 0, signature = None,
       status_queries = 0, confirmation = None, thrown = Some e \<rparr>"

text \<open>
  The closing steps that the scripts share (native.ts 68 to 84 and 204 to 224, examples.ts
  65 to 81, and for the swap native.ts 381 to 407): fetch the blockhash, build and sign the transaction,
  submit it with retries and, when a signature came back, poll for confirmation.
  Compiling and signing the message are taken to succeed.
\<close>

definition build_send_monitor ::
  "world \<Rightarrow> pubkey \<Rightarrow> instruction list \<Rightarrow> lookup_table list \<Rightarrow> log_line list \<Rightarrow> run" where
  "build_send_monitor w wallet instrs tables lg =
     (case getLatestBlockhash w of
        Inl e \<Rightarrow> throws e lg
      | Inr blockhash \<Rightarrow>
          (let tx = \<lparr> payerKey = wallet, recentBlockhash = blockhash,
                      instructions = instrs, lookupTables = tables \<rparr>
           in case sendTxWithRetries w tx None of
                (sig, calls, slog) \<Rightarrow>
                  if truthy sig then
                    (let s = (case sig of None \<Rightarrow> [] | Some x \<Rightarrow> x);
                         m = monitorTransactionStatus w s None
                     in \<lparr> stderr = lg @ slog @ monitor_log m, submitted = Some tx,
                          send_calls = calls, signature = sig, status_queries = queries m,
                          confirmation = returned m, thrown = monitor_thrown m \<rparr>)
                  else
                    \<lparr> stderr = lg @ slog, submitted = Some tx, send_calls = calls,
                      signature = sig, status_queries = 0, confirmation = None,
                      thrown = None \<rparr>))"

section \<open>examples/native.ts: SOL transfer\<close>

text \<open>\<open>0.001 * LAMPORTS_PER_SOL\<close> is the number \<open>1000000\<close>.\<close>

definition transferAmount_SOL :: int where
  "transferAmount_SOL = LAMPORTS_PER_SOL div 1000"

definition recipient_or_default :: "config \<Rightarrow> string option \<Rightarrow> pubkey" where
  "recipient_or_default cfg recipientAddress =
     (if truthy recipientAddress
      then (case recipientAddress of None \<Rightarrow> [] | Some r \<Rightarrow> r)
      else DEFAULT_RECIPIENT cfg)"

text \<open>The instruction list of \<open>solTransfer\<close> (native.ts 50 to 65).\<close>

definition solTransfer_instructions :: "config \<Rightarrow> pubkey \<Rightarrow> pubkey \<Rightarrow> instruction list" where
  "solTransfer_instructions cfg wallet recipient =
     addLightSpeedTip cfg
       (addComputeBudget [] None None @ [SystemTransfer wallet recipient transferAmount_SOL])
       wallet"

text \<open>The base cost \<open>solTransfer\<close> passes to the guard (native.ts 41 and 42).\<close>

definition solTransfer_totalNeeded :: int where
  "solTransfer_totalNeeded = transferAmount_SOL + 5000"

definition solTransfer :: "config \<Rightarrow> world \<Rightarrow> string option \<Rightarrow> run" where
  "solTransfer cfg w recipientAddress =
     (case loadWallet w (WALLET_PATH cfg) of
        Inl e \<Rightarrow> throws e []
      | Inr wallet \<Rightarrow>
          (let recipient = recipient_or_default cfg recipientAddress
           in case checkBalanceForOperations cfg w wallet solTransfer_totalNeeded
                     (Some ''SOL transfer'') of
                (Inl e, lg) \<Rightarrow> throws e lg
              | (Inr hasBalance, lg) \<Rightarrow>
                  if \<not> hasBalance then returns lg
                  else build_send_monitor w wallet
                         (solTransfer_instructions cfg wallet recipient) [] lg))"

section \<open>examples.ts: the first example\<close>

definition example1_recipient :: pubkey where
  "example1_recipient = ''DTFhyarmG9UJn2bnt29GLjcEKfPEFRQC7YCgywuhapAv''"

text \<open>The base cost \<open>example1_solTransfer\<close> passes to the guard (examples.ts 38 and 39).\<close>

definition example1_totalNeeded :: int where
  "example1_totalNeeded = transferAmount_SOL + TIPS_VIBE_FEE + 5000"

definition example1_instructions :: "config \<Rightarrow> pubkey \<Rightarrow> instruction list" where
  "example1_instructions cfg wallet =
     addLightSpeedTip cfg
       (addComputeBudget [] None None
          @ [SystemTransfer wallet example1_recipient transferAmount_SOL])
       wallet"

definition example1_solTransfer :: "config \<Rightarrow> world \<Rightarrow> run" where
  "example1_solTransfer cfg w =
     (case loadWallet w (WALLET_PATH cfg) of
        Inl e \<Rightarrow> throws e []
      | Inr wallet \<Rightarrow>
          (case checkBalanceForOperations cfg w wallet example1_totalNeeded
                  (Some ''SOL transfer'') of
             (Inl e, lg) \<Rightarrow> throws e lg
           | (Inr hasBalance, lg) \<Rightarrow>
               if \<not> hasBalance then returns lg
               else build_send_monitor w wallet (example1_instructions cfg wallet) [] lg))"

section \<open>examples/native.ts: token transfer\<close>

definition USDC_MINT :: pubkey where
  "USDC_MINT = ''EPjFWdd5AufqSSqeM2qN1xzybapC8G4wEGGkZwyTDt1v''"

definition USDC_DECIMALS :: nat where
  "USDC_DECIMALS = 6"

definition accountCreationRent :: int where
  "accountCreationRent = 2039280"

text \<open>
  The number that \<open>parseFloat(displayAmount)\<close> yields (native.ts 116 to 120 and 163): for
  the USDC mint the raw amount divided by \<open>10^6\<close> (six digits after the point are exact
  for a whole number of raw units), for any other mint the raw amount itself.
\<close>

definition displayAmount :: "pubkey \<Rightarrow> nat \<Rightarrow> rat" where
  "displayAmount tokenMint transferAmount =
     (if tokenMint = USDC_MINT then of_nat transferAmount / 10 ^ USDC_DECIMALS
      else of_nat transferAmount)"

definition tokenName :: "pubkey \<Rightarrow> string" where
  "tokenName tokenMint = (if tokenMint = USDC_MINT then ''USDC'' else ''tokens'')"

text \<open>The base cost \<open>tokenTransfer\<close> passes to the guard (native.ts 128 to 136).\<close>

definition totalSOLNeeded :: "bool \<Rightarrow> int" where
  "totalSOLNeeded needsAccountCreation =
     5000 + (if needsAccountCreation then accountCreationRent else 0)"

text \<open>The instruction list of \<open>tokenTransfer\<close> (native.ts 170 to 201).\<close>

definition tokenTransfer_instructions ::
  "config \<Rightarrow> pubkey \<Rightarrow> pubkey \<Rightarrow> pubkey \<Rightarrow> pubkey \<Rightarrow> pubkey \<Rightarrow> bool \<Rightarrow> nat
     \<Rightarrow> instruction list" where
  "tokenTransfer_instructions cfg wallet recipient tokenMint senderTokenAccount
       recipientTokenAccount needsAccountCreation transferAmount =
     addLightSpeedTip cfg
       (addComputeBudget [] None None
          @ (if needsAccountCreation
             then [CreateAssociatedTokenAccount wallet recipientTokenAccount recipient tokenMint]
             else [])
          @ [TokenTransfer senderTokenAccount recipientTokenAccount wallet transferAmount])
       wallet"

definition tokenTransfer ::
  "config \<Rightarrow> world \<Rightarrow> string option \<Rightarrow> string option \<Rightarrow> nat option \<Rightarrow> run" where
  "tokenTransfer cfg w recipientAddress tokenMintAddress amount =
     (case loadWallet w (WALLET_PATH cfg) of
        Inl e \<Rightarrow> throws e []
      | Inr wallet \<Rightarrow>
     (let recipient = recipient_or_default cfg recipientAddress;
          tokenMint = (if truthy tokenMintAddress
                       then (case tokenMintAddress of None \<Rightarrow> [] | Some m \<Rightarrow> m)
                       else USDC_MINT);
          transferAmount = (case amount of None \<Rightarrow> 1 | Some a \<Rightarrow> a)
      in
     (case getAssociatedTokenAddress w tokenMint recipient of
        Inl e \<Rightarrow> throws e []
      | Inr recipientTokenAccount \<Rightarrow>
     (case getAccountInfo w recipientTokenAccount of
        Inl e \<Rightarrow> throws e []
      | Inr recipientAccountInfo \<Rightarrow>
     (let needsAccountCreation = (recipientAccountInfo = None)
      in
     (case checkBalanceForOperations cfg w wallet (totalSOLNeeded needsAccountCreation)
             (Some ''token transfer'') of
        (Inl e, lg) \<Rightarrow> throws e lg
      | (Inr hasBalance, lg) \<Rightarrow>
      if \<not> hasBalance then returns lg
      else
     (case getAssociatedTokenAddress w tokenMint wallet of
        Inl e \<Rightarrow> throws e lg
      | Inr senderTokenAccount \<Rightarrow>
     (case getAccountInfo w senderTokenAccount of
        Inl e \<Rightarrow> throws e lg
      | Inr senderTokenAccountInfo \<Rightarrow>
      if senderTokenAccountInfo = None then
        returns (lg @ [Err ''Error: You don't have a token account for this mint'',
                       Err (''Token mint: '' @ tokenMint)])
      else
     (case getParsedUiAmount w senderTokenAccount of
        Inl e \<Rightarrow> throws e lg
      | Inr uiAmount \<Rightarrow>
     (let tokenBalance = (case uiAmount of None \<Rightarrow> 0 | Some b \<Rightarrow> b)
      in
      if tokenBalance < displayAmount tokenMint transferAmount then
        returns (lg @ [Err (''Error: Insufficient '' @ tokenName tokenMint @ '' balance'')])
      else
        build_send_monitor w wallet
          (tokenTransfer_instructions cfg wallet recipient tokenMint senderTokenAccount
             recipientTokenAccount needsAccountCreation transferAmount)
          [] lg))))))))))"

section \<open>The swap script (examples/native.ts from line 225)\<close>

definition deserializeInstruction :: "raw_instruction \<Rightarrow> instruction" where
  "deserializeInstruction i = Deserialized (programId i) (accounts i) (data64 i)"

definition jupiterSwap_priorityFee :: nat where
  "jupiterSwap_priorityFee = 50000"

text \<open>The base cost the swap passes to the guard (native.ts 260 to 265).\<close>

definition jupiterSwap_totalNeeded :: int where
  "jupiterSwap_totalNeeded = transferAmount_SOL + 10000 + int jupiterSwap_priorityFee"

text \<open>
  \<open>Promise.all\<close> over the lookup-table addresses (native.ts 325 to 337): one rejection
  rejects the whole; the model reports the first one in list order.
\<close>

fun getAddressLookupTable_all :: "world \<Rightarrow> string list \<Rightarrow> js_error + lookup_table option list" where
  "getAddressLookupTable_all w [] = Inr []"
| "getAddressLookupTable_all w (a # as) =
     (case getAddressLookupTable w a of
        Inl e \<Rightarrow> Inl e
      | Inr t \<Rightarrow>
          (case getAddressLookupTable_all w as of
             Inl e \<Rightarrow> Inl e
           | Inr ts \<Rightarrow> Inr (t # ts)))"

definition addressLookupTableAccounts ::
  "world \<Rightarrow> string list option \<Rightarrow> js_error + lookup_table list" where
  "addressLookupTableAccounts w addresses =
     (case addresses of
        None \<Rightarrow> Inr []
      | Some as \<Rightarrow>
          if length as > 0 then
            (case getAddressLookupTable_all w as of
               Inl e \<Rightarrow> Inl e
             | Inr ts \<Rightarrow> Inr (List.map_filter (\<lambda>t. t) ts))
          else Inr [])"

text \<open>The instruction list of the swap (native.ts 353 to 379).\<close>

definition jupiterSwap_instructions :: "config \<Rightarrow> pubkey \<Rightarrow> swap_instructions \<Rightarrow> instruction list" where
  "jupiterSwap_instructions cfg wallet r =
     addLightSpeedTip cfg
       ([SetComputeUnitLimit 400000, SetComputeUnitPrice jupiterSwap_priorityFee]
          @ (case setupInstructions r of
               None \<Rightarrow> []
             | Some xs \<Rightarrow> if length xs > 0 then map deserializeInstruction xs else [])
          @ [deserializeInstruction (swapInstruction r)]
          @ (case cleanupInstruction r of
               None \<Rightarrow> []
             | Some c \<Rightarrow> [deserializeInstruction c]))
       wallet"

text \<open>
  The \<open>try\<close> block (native.ts 280 to 414). \<open>getQuote\<close> stands for the first HTTP call and the
  reading of the quote, \<open>postSwapInstructions\<close> for the second call with its body (\<open>None\<close>
  when the body is empty).
\<close>

definition jupiterSwap_try :: "config \<Rightarrow> world \<Rightarrow> pubkey \<Rightarrow> log_line list \<Rightarrow> run" where
  "jupiterSwap_try cfg w wallet lg =
     (case getQuote w of
        Inl e \<Rightarrow> throws e lg
      | Inr quote \<Rightarrow>
     (case postSwapInstructions w of
        Inl e \<Rightarrow> throws e lg
      | Inr instructionsResponse \<Rightarrow>
     (case instructionsResponse of
        None \<Rightarrow> throws (Error ''No instructions received from Jupiter'') lg
      | Some r \<Rightarrow>
     (case addressLookupTableAccounts w (addressLookupTableAddresses r) of
        Inl e \<Rightarrow> throws e lg
      | Inr tables \<Rightarrow>
     (let res = build_send_monitor w wallet (jupiterSwap_instructions cfg wallet r) tables lg
      in if thrown res = None then
           (case confirmation res of
              None \<Rightarrow> res
            | Some result \<Rightarrow>
                (case err result of
                   None \<Rightarrow> res
                 | Some e \<Rightarrow> res \<lparr> stderr := stderr res @ [Err (''Swap failed: '' @ e)] \<rparr>))
         else res)))))"

text \<open>The \<open>catch\<close> clause (native.ts 415 to 429): what it writes for the error caught.\<close>

definition swap_catch :: "js_error \<Rightarrow> log_line list" where
  "swap_catch error =
     [Err (''Swap error: '' @ message error)]
     @ (case response error of
          None \<Rightarrow> []
        | Some r \<Rightarrow> (case data r of None \<Rightarrow> [] | Some d \<Rightarrow> [Err (''API Error: '' @ d)]))
     @ (if isAxiosError error then
          (case response error of
             None \<Rightarrow> []
           | Some r \<Rightarrow>
               if status r = 429 then [Err ''Rate limited. Try again in a few seconds.'']
               else if status r = 400 then [Err ''Bad request. Check your parameters.'']
               else [])
        else [])"

definition jupiterSwapSOLtoUSDC :: "config \<Rightarrow> world \<Rightarrow> run" where
  "jupiterSwapSOLtoUSDC cfg w =
     (case loadWallet w (WALLET_PATH cfg) of
        Inl e \<Rightarrow> throws e []
      | Inr wallet \<Rightarrow>
          (case checkBalanceForOperations cfg w wallet jupiterSwap_totalNeeded
                  (Some ''Jupiter swap'') of
             (Inl e, lg) \<Rightarrow> throws e lg
           | (Inr hasBalance, lg) \<Rightarrow>
               if \<not> hasBalance then returns lg
               else
                 (let res = jupiterSwap_try cfg w wallet lg
                  in case thrown res of
                       None \<Rightarrow> res
                     | Some error \<Rightarrow>
                         res \<lparr> stderr := stderr res @ swap_catch error, thrown := None \<rparr>)))"

section \<open>Notions used to state the properties\<close>

text \<open>A submission attempt fails when the call rejects or returns no identifier.\<close>

definition send_fails :: "js_error + string \<Rightarrow> bool" where
  "send_fails r = (case r of Inl e \<Rightarrow> True | Inr s \<Rightarrow> s = [])"




section \<open>Concrete configurations and networks\<close>

definition test_config :: "bool \<Rightarrow> config" where
  "test_config tips =
     \<lparr> USE_LIGHTSPEED = tips,
       DEFAULT_RECIPIENT = DEFAULT_RECIPIENT_placeholder,
       WALLET_PATH = ''./wallets/wallet.json'',
       RPC_ENDPOINT = ''https://rpc.example'',
       RPC_LIGHTSPEED_ENDPOINT = ''https://lightspeed.example'' \<rparr>"

definition confirmed_status :: signature_status where
  "confirmed_status = \<lparr> confirmationStatus = Some Confirmed, err = None \<rparr>"

definition test_swap_instructions :: swap_instructions where
  "test_swap_instructions =
     \<lparr> computeBudgetInstructions = [],
       setupInstructions = Some [\<lparr> programId = ''Setup'', accounts = [], data64 = ''AA=='' \<rparr>],
       swapInstruction = \<lparr> programId = ''Swap'', accounts = [(''Payer'', True, True)], data64 = ''AQ=='' \<rparr>,
       cleanupInstruction = None,
       addressLookupTableAddresses = None \<rparr>"

text \<open>
  A network where every call succeeds at once: the wallet \<open>Payer\<close> holds the given balance,
  every account exists, the sender holds 5 tokens, the first submission returns \<open>sig\<close> and
  the first status query reports it confirmed.
\<close>

definition calm_world :: "int \<Rightarrow> world" where
  "calm_world balance =
     \<lparr> loadWallet = (\<lambda>p. Inr ''Payer''),
       getBalance = (\<lambda>k. Inr balance),
       getAssociatedTokenAddress = (\<lambda>mint owner. Inr (''ata/'' @ owner)),
       getAccountInfo = (\<lambda>a. Inr (Some (AccountInfo 2039280))),
       getParsedUiAmount = (\<lambda>a. Inr (Some 5)),
       getLatestBlockhash = Inr ''blockhash'',
       sendRawTransaction = (\<lambda>tx n. Inr ''sig''),
       getSignatureStatus = (\<lambda>s n. Inr (Some confirmed_status)),
       queryMillis = (\<lambda>n. 0),
       timerLateMillis = (\<lambda>n. 0),
       getQuote = Inr \<lparr> outAmount = ''150000'', routeLabels = [''Orca''], priceImpactPct = ''0'' \<rparr>,
       postSwapInstructions = Inr (Some test_swap_instructions),
       getAddressLookupTable = (\<lambda>a. Inr None) \<rparr>"

definition test_tx :: transaction where
  "test_tx =
     \<lparr> payerKey = ''Payer'', recentBlockhash = ''blockhash'',
       instructions = solTransfer_instructions (test_config False) ''Payer'' ''Bob'',
       lookupTables = [] \<rparr>"

text \<open>The endpoint rejects the first two submissions and accepts the third.\<close>

definition flaky_world :: world where
  "flaky_world =
     (calm_world 10000000)
       \<lparr> sendRawTransaction := (\<lambda>tx n. if n < 2 then Inl (Error ''503'') else Inr ''sig3'') \<rparr>"

text \<open>The endpoint rejects every submission, or answers without an identifier.\<close>

definition dead_world :: world where
  "dead_world =
     (calm_world 10000000)
       \<lparr> sendRawTransaction := (\<lambda>tx n. if n = 1 then Inr [] else Inl (Error ''503'')) \<rparr>"







text \<open>A wallet with 0.0025 SOL.\<close>

definition poor_world :: world where
  "poor_world = calm_world 2500000"

text \<open>Only the sender's token account exists; only the sender's is missing.\<close>

definition no_recipient_account_world :: world where
  "no_recipient_account_world =
     (calm_world 10000000)
       \<lparr> getAccountInfo :=
           (\<lambda>a. if a = ''ata/Payer'' then Inr (Some (AccountInfo 2039280)) else Inr None) \<rparr>"


text \<open>The aggregator answers the quote call with 429, or the second call with 400.\<close>

definition rate_limited :: js_error where
  "rate_limited =
     AxiosError ''Request failed with status code 429''
       (Some \<lparr> status = 429, data = Some ''Too Many Requests'' \<rparr>)"

definition bad_request :: js_error where
  "bad_request =
     AxiosError ''Request failed with status code 400'' (Some \<lparr> status = 400, data = None \<rparr>)"

definition rate_limited_world :: world where
  "rate_limited_world = (calm_world 10000000) \<lparr> getQuote := Inl rate_limited \<rparr>"

definition bad_request_world :: world where
  "bad_request_world = (calm_world 10000000) \<lparr> postSwapInstructions := Inl bad_request \<rparr>"


section \<open>Properties\<close>

declare sendTxWithRetries_loop.simps [simp del]
declare monitor_loop.simps [simp del]

subsection \<open>Instruction order\<close>








subsection \<open>The balance guard\<close>



subsection \<open>Submission with retries\<close>

lemma try_send_fails: "send_fails r \<Longrightarrow> \<exists>e. try_send r = Inl e"
  by (auto simp: send_fails_def try_send_def split: sum.splits)

lemma try_send_ok: "s \<noteq> [] \<Longrightarrow> try_send (Inr s) = Inr s"
  by (simp add: try_send_def)

lemma sendTxWithRetries_loop_success:
  "calls \<le> N \<Longrightarrow> attempt + (N - calls) \<le> maxAttempts \<Longrightarrow>
   (\<forall>i. calls \<le> i \<and> i < N \<longrightarrow> send_fails (sendRawTransaction w tx i)) \<Longrightarrow>
   sendRawTransaction w tx N = Inr s \<Longrightarrow> s \<noteq> [] \<Longrightarrow>
   \<exists>lg'. sendTxWithRetries_loop w tx maxAttempts attempt calls lg = (Some s, Suc N, lg')"
proof (induction "N - calls" arbitrary: attempt calls lg)
  case 0
  then have "calls = N" by simp
  with 0 show ?case
    by (subst sendTxWithRetries_loop.simps) (simp add: try_send_ok)
next
  case (Suc d)
  then have lt: "calls < N" by simp
  with Suc.prems have "send_fails (sendRawTransaction w tx calls)" by simp
  then obtain e where e: "try_send (sendRawTransaction w tx calls) = Inl e"
    using try_send_fails by blast
  have att: "attempt \<le> maxAttempts" using Suc.prems lt by simp
  have "\<exists>lg'. sendTxWithRetries_loop w tx maxAttempts (Suc attempt) (Suc calls)
            (lg @ [Err (''Attempt '' @ string_of_nat attempt @ '' failed: '' @ message e)]
                @ (if attempt = maxAttempts then [Err ''Max retries reached''] else []))
          = (Some s, Suc N, lg')"
    using Suc.hyps Suc.prems lt by (intro Suc.hyps(1)) auto
  then show ?case
    using e att by (subst sendTxWithRetries_loop.simps) simp
qed

lemma sendTxWithRetries_loop_all_fail:
  "(\<forall>i. calls \<le> i \<and> i < calls + (Suc maxAttempts - attempt) \<longrightarrow>
        send_fails (sendRawTransaction w tx i)) \<Longrightarrow>
   \<exists>lg'. sendTxWithRetries_loop w tx maxAttempts attempt calls lg
          = (None, calls + (Suc maxAttempts - attempt), lg')"
proof (induction "Suc maxAttempts - attempt" arbitrary: attempt calls lg)
  case 0
  then have "\<not> attempt \<le> maxAttempts" by simp
  with 0 show ?case
    by (subst sendTxWithRetries_loop.simps) simp
next
  case (Suc d)
  then have att: "attempt \<le> maxAttempts" by simp
  with Suc.prems have "send_fails (sendRawTransaction w tx calls)" by simp
  then obtain e where e: "try_send (sendRawTransaction w tx calls) = Inl e"
    using try_send_fails by blast
  have "\<exists>lg'. sendTxWithRetries_loop w tx maxAttempts (Suc attempt) (Suc calls)
            (lg @ [Err (''Attempt '' @ string_of_nat attempt @ '' failed: '' @ message e)]
                @ (if attempt = maxAttempts then [Err ''Max retries reached''] else []))
          = (None, Suc calls + (Suc maxAttempts - Suc attempt), lg')"
    using Suc.hyps Suc.prems att by (intro Suc.hyps(1)) auto
  moreover have "Suc calls + (Suc maxAttempts - Suc attempt) = calls + (Suc maxAttempts - attempt)"
    using att by simp
  ultimately show ?case
    using e att by (subst sendTxWithRetries_loop.simps) simp
qed

text \<open>
  C3. With the default of three attempts: when the first \<open>N\<close> submissions fail and the
  next one returns a non-empty identifier, \<open>N < 3\<close>, the pipeline returns that identifier
  after exactly \<open>N + 1\<close> calls; when all three fail (by rejecting or by returning no
  identifier) it returns \<open>null\<close> after exactly three calls. The result is a value in both
  cases: the errors caught by the \<open>catch\<close> clause do not leave the function.
\<close>

theorem C3_send_with_retry:
  "(N < 3 \<and> (\<forall>i<N. send_fails (sendRawTransaction w tx i)) \<and>
      sendRawTransaction w tx N = Inr s \<and> s \<noteq> [] \<longrightarrow>
      fst (sendTxWithRetries w tx None) = Some s \<and>
      fst (snd (sendTxWithRetries w tx None)) = N + 1) \<and>
   ((\<forall>i<3. send_fails (sendRawTransaction w tx i)) \<longrightarrow>
      fst (sendTxWithRetries w tx None) = None \<and>
      fst (snd (sendTxWithRetries w tx None)) = 3)"
proof (intro conjI impI)
  assume a: "N < 3 \<and> (\<forall>i<N. send_fails (sendRawTransaction w tx i)) \<and>
      sendRawTransaction w tx N = Inr s \<and> s \<noteq> []"
  then obtain lg' where "sendTxWithRetries_loop w tx 3 1 0 [] = (Some s, Suc N, lg')"
    using sendTxWithRetries_loop_success [of 0 N 1 3 w tx s "[]"] by auto
  then show "fst (sendTxWithRetries w tx None) = Some s"
    and "fst (snd (sendTxWithRetries w tx None)) = N + 1"
    by (simp_all add: sendTxWithRetries_def)
next
  assume a: "\<forall>i<3. send_fails (sendRawTransaction w tx i)"
  then obtain lg' where "sendTxWithRetries_loop w tx 3 1 0 [] = (None, 3, lg')"
    using sendTxWithRetries_loop_all_fail [of 0 3 1 w tx "[]"] by auto
  then show "fst (sendTxWithRetries w tx None) = None"
    and "fst (snd (sendTxWithRetries w tx None)) = 3"
    by (simp_all add: sendTxWithRetries_def)
qed

theorem C3_send_with_retry_witness:
  "fst (sendTxWithRetries flaky_world test_tx None) = Some ''sig3''
   \<and> fst (snd (sendTxWithRetries flaky_world test_tx None)) = 3
   \<and> fst (sendTxWithRetries dead_world test_tx None) = None
   \<and> fst (snd (sendTxWithRetries dead_world test_tx None)) = 3"
proof -
  have f: "(2::nat) < 3 \<and> (\<forall>i<2. send_fails (sendRawTransaction flaky_world test_tx i)) \<and>
      sendRawTransaction flaky_world test_tx 2 = Inr ''sig3'' \<and> ''sig3'' \<noteq> []"
    by (simp add: flaky_world_def calm_world_def send_fails_def)
  have d: "\<forall>i<3. send_fails (sendRawTransaction dead_world test_tx i)"
    by (simp add: dead_world_def calm_world_def send_fails_def)
  show ?thesis
    using C3_send_with_retry [of 2 flaky_world test_tx "''sig3''"] f
      C3_send_with_retry [of 0 dead_world test_tx "[]"] d
    by simp
qed

subsection \<open>Confirmation polling\<close>

























subsection \<open>The scenario drivers\<close>

lemma submitted_returns [simp]: "submitted (returns lg) = None"
  by (simp add: returns_def)

lemma submitted_throws [simp]: "submitted (throws e lg) = None"
  by (simp add: throws_def)

lemma build_send_monitor_submitted:
  "submitted (build_send_monitor w wallet instrs tables lg) = Some tx \<Longrightarrow>
   instructions tx = instrs \<and> payerKey tx = wallet \<and> lookupTables tx = tables"
  by (auto simp: build_send_monitor_def Let_def split: sum.splits prod.splits if_splits)

lemma build_send_monitor_not_returns:
  "build_send_monitor w wallet instrs tables lg \<noteq> returns lg'"
  by (auto simp: build_send_monitor_def Let_def returns_def throws_def
      split: sum.splits prod.splits if_splits)


text \<open>Every check a token transfer has passed when its transaction is submitted.\<close>

lemma tokenTransfer_submitted:
  assumes "submitted (tokenTransfer cfg w recipientAddress tokenMintAddress amount) \<noteq> None"
    and "tokenMint = (if truthy tokenMintAddress
                       then (case tokenMintAddress of None \<Rightarrow> [] | Some m \<Rightarrow> m)
                       else USDC_MINT)"
    and "transferAmount = (case amount of None \<Rightarrow> 1 | Some a \<Rightarrow> a)"
    and "recipient = recipient_or_default cfg recipientAddress"
  shows "\<exists>wallet rta info lg sta sinfo ui.
       loadWallet w (WALLET_PATH cfg) = Inr wallet
     \<and> getAssociatedTokenAddress w tokenMint recipient = Inr rta
     \<and> getAccountInfo w rta = Inr info
     \<and> checkBalanceForOperations cfg w wallet (totalSOLNeeded (info = None))
          (Some ''token transfer'') = (Inr True, lg)
     \<and> getAssociatedTokenAddress w tokenMint wallet = Inr sta
     \<and> getAccountInfo w sta = Inr (Some sinfo)
     \<and> getParsedUiAmount w sta = Inr ui
     \<and> \<not> (case ui of None \<Rightarrow> 0 | Some b \<Rightarrow> b) < displayAmount tokenMint transferAmount
     \<and> tokenTransfer cfg w recipientAddress tokenMintAddress amount
        = build_send_monitor w wallet
            (tokenTransfer_instructions cfg wallet recipient tokenMint sta rta (info = None)
               transferAmount) [] lg"
  using assms(1)
  unfolding tokenTransfer_def assms(2-4) [symmetric] Let_def
  by (auto split: sum.splits prod.splits if_splits)

text \<open>The token-transfer script stops at the guard exactly when the balance is short.\<close>

lemma tokenTransfer_guard:
  assumes "tokenMint = (if truthy tokenMintAddress
                       then (case tokenMintAddress of None \<Rightarrow> [] | Some m \<Rightarrow> m)
                       else USDC_MINT)"
    and "recipient = recipient_or_default cfg recipientAddress"
    and "loadWallet w (WALLET_PATH cfg) = Inr wallet"
    and "getAssociatedTokenAddress w tokenMint recipient = Inr rta"
    and "getAccountInfo w rta = Inr info"
    and "getBalance w wallet = Inr balance"
  shows "(tokenTransfer cfg w recipientAddress tokenMintAddress amount
            = returns [Err ''Insufficient balance for token transfer''])
         \<longleftrightarrow> balance < totalSOLNeeded (info = None)
                        + (if USE_LIGHTSPEED cfg then TIPS_VIBE_FEE else 0)"
proof (cases "balance < totalSOLNeeded (info = None)
                        + (if USE_LIGHTSPEED cfg then TIPS_VIBE_FEE else 0)")
  case True
  then show ?thesis
    using assms(3-6)
    unfolding tokenTransfer_def assms(1,2) [symmetric] Let_def
    by (auto simp: checkBalanceForOperations_def truthy_def Let_def)
next
  case False
  then have g: "checkBalanceForOperations cfg w wallet (totalSOLNeeded (info = None))
          (Some ''token transfer'') = (Inr True, [])"
    using assms(6) by (auto simp: checkBalanceForOperations_def Let_def)
  have "tokenTransfer cfg w recipientAddress tokenMintAddress amount
            \<noteq> returns [Err ''Insufficient balance for token transfer'']"
    using assms(3-5) g build_send_monitor_not_returns
    unfolding tokenTransfer_def assms(1,2) [symmetric] Let_def
    by (auto simp: returns_def throws_def split: sum.splits)
  with False show ?thesis by simp
qed


lemmas run_defs =
  test_config_def calm_world_def confirmed_status_def truthy_def returns_def throws_def
  checkBalanceForOperations_def recipient_or_default_def build_send_monitor_def
  sendTxWithRetries_def sendTxWithRetries_loop.simps try_send_def
  monitorTransactionStatus_def monitor_loop.simps is_confirmed_def has_err_def
  TIPS_VIBE_FEE_def TIPS_VIBE_STATION_def transferAmount_SOL_def LAMPORTS_PER_SOL_def
  DEFAULT_RECIPIENT_placeholder_def USDC_MINT_def USDC_DECIMALS_def accountCreationRent_def
  addLightSpeedTip_def addComputeBudget_def tip_instruction_def

text \<open>
  C6, at the failing input: tips enabled, balance 2500000 lamports. The first example
  adds the tip to the base cost, the guard adds it again, and the script stops for want
  of 3005000 lamports; \<open>solTransfer\<close> asks for 2005000 and submits the same instructions.
\<close>

theorem C6_example1_counts_tip_twice:
  "example1_totalNeeded = solTransfer_totalNeeded + TIPS_VIBE_FEE
   \<and> USE_LIGHTSPEED (test_config True)
   \<and> getBalance poor_world ''Payer'' = Inr 2500000
   \<and> fst (checkBalanceForOperations (test_config True) poor_world ''Payer''
            example1_totalNeeded (Some ''SOL transfer'')) = Inr False
   \<and> fst (checkBalanceForOperations (test_config True) poor_world ''Payer''
            solTransfer_totalNeeded (Some ''SOL transfer'')) = Inr True
   \<and> example1_solTransfer (test_config True) poor_world
       = returns [Err ''Insufficient balance for SOL transfer'']
   \<and> map_option instructions
        (submitted (solTransfer (test_config True) poor_world (Some example1_recipient)))
      = Some (example1_instructions (test_config True) ''Payer'')"
  by (simp add: run_defs example1_totalNeeded_def solTransfer_totalNeeded_def poor_world_def
        example1_solTransfer_def solTransfer_def example1_recipient_def
        solTransfer_instructions_def example1_instructions_def)



text \<open>
  C8. When the recipient's token account does not exist, the guard is asked for the fee
  plus the account-creation rent (plus the tip when enabled), and a submitted transaction
  carries the account-creation instruction right before the token transfer. When the
  account exists, the guard is asked for the fee (plus the tip) only, and no
  account-creation instruction is in the list.
\<close>

theorem C8_account_creation:
  assumes "r = tokenTransfer cfg w recipientAddress tokenMintAddress amount"
    and "tokenMint = (if truthy tokenMintAddress
                       then (case tokenMintAddress of None \<Rightarrow> [] | Some m \<Rightarrow> m)
                       else USDC_MINT)"
    and "transferAmount = (case amount of None \<Rightarrow> 1 | Some a \<Rightarrow> a)"
    and "recipient = recipient_or_default cfg recipientAddress"
    and "loadWallet w (WALLET_PATH cfg) = Inr wallet"
    and "getAssociatedTokenAddress w tokenMint recipient = Inr recipientTokenAccount"
    and "getAccountInfo w recipientTokenAccount = Inr recipientAccountInfo"
    and "getBalance w wallet = Inr balance"
    and "tip = (if USE_LIGHTSPEED cfg then TIPS_VIBE_FEE else 0)"
  shows "(recipientAccountInfo = None \<longrightarrow>
            (r = returns [Err ''Insufficient balance for token transfer'']
               \<longleftrightarrow> balance < 5000 + accountCreationRent + tip)
          \<and> (\<forall>tx. submitted r = Some tx \<longrightarrow>
                (\<exists>sta post. instructions tx
                   = [SetComputeUnitLimit 200000, SetComputeUnitPrice 1000,
                      CreateAssociatedTokenAccount wallet recipientTokenAccount recipient tokenMint,
                      TokenTransfer sta recipientTokenAccount wallet transferAmount] @ post)))
       \<and> (recipientAccountInfo \<noteq> None \<longrightarrow>
            (r = returns [Err ''Insufficient balance for token transfer'']
               \<longleftrightarrow> balance < 5000 + tip)
          \<and> (\<forall>tx. submitted r = Some tx \<longrightarrow>
                (\<forall>a b c d. CreateAssociatedTokenAccount a b c d \<notin> set (instructions tx))
              \<and> (\<exists>sta post. instructions tx
                   = [SetComputeUnitLimit 200000, SetComputeUnitPrice 1000,
                      TokenTransfer sta recipientTokenAccount wallet transferAmount] @ post)))"
proof -
  have guard: "(r = returns [Err ''Insufficient balance for token transfer''])
         \<longleftrightarrow> balance < totalSOLNeeded (recipientAccountInfo = None) + tip"
    unfolding assms(1,9) by (rule tokenTransfer_guard [OF assms(2,4-8)])
  have list: "\<exists>sta. instructions tx
        = tokenTransfer_instructions cfg wallet recipient tokenMint sta recipientTokenAccount
            (recipientAccountInfo = None) transferAmount"
    if s: "submitted r = Some tx" for tx
  proof -
    have "submitted (tokenTransfer cfg w recipientAddress tokenMintAddress amount) \<noteq> None"
      using s by (simp add: assms(1))
    from tokenTransfer_submitted [OF this assms(2,3,4)] assms(5,6,7)
    obtain sta lg where "tokenTransfer cfg w recipientAddress tokenMintAddress amount
        = build_send_monitor w wallet
            (tokenTransfer_instructions cfg wallet recipient tokenMint sta recipientTokenAccount
               (recipientAccountInfo = None) transferAmount) [] lg"
      by auto
    with s build_send_monitor_submitted show ?thesis
      unfolding assms(1) by metis
  qed
  have missing: "\<exists>sta post. instructions tx
                   = [SetComputeUnitLimit 200000, SetComputeUnitPrice 1000,
                      CreateAssociatedTokenAccount wallet recipientTokenAccount recipient tokenMint,
                      TokenTransfer sta recipientTokenAccount wallet transferAmount] @ post"
    if "recipientAccountInfo = None" "submitted r = Some tx" for tx
    using list [OF that(2)] that(1)
    by (auto simp: tokenTransfer_instructions_def addLightSpeedTip_def addComputeBudget_def
          split: if_splits)
  have present: "(\<forall>a b c d. CreateAssociatedTokenAccount a b c d \<notin> set (instructions tx))
              \<and> (\<exists>sta post. instructions tx
                   = [SetComputeUnitLimit 200000, SetComputeUnitPrice 1000,
                      TokenTransfer sta recipientTokenAccount wallet transferAmount] @ post)"
    if "recipientAccountInfo \<noteq> None" "submitted r = Some tx" for tx
    using list [OF that(2)] that(1)
    by (auto simp: tokenTransfer_instructions_def addLightSpeedTip_def addComputeBudget_def
          tip_instruction_def split: if_splits)
  show ?thesis
    using guard missing present by (auto simp: totalSOLNeeded_def)
qed

theorem C8_account_creation_witness:
  "map_option instructions
     (submitted (tokenTransfer (test_config False) no_recipient_account_world None None None))
   = Some [SetComputeUnitLimit 200000, SetComputeUnitPrice 1000,
           CreateAssociatedTokenAccount ''Payer''
             ''ata/So11111111111111111111111111111111111111112''
             ''So11111111111111111111111111111111111111112''
             ''EPjFWdd5AufqSSqeM2qN1xzybapC8G4wEGGkZwyTDt1v'',
           TokenTransfer ''ata/Payer'' ''ata/So11111111111111111111111111111111111111112''
             ''Payer'' 1]
   \<and> tokenTransfer (test_config False) no_recipient_account_world None None None
       \<noteq> returns [Err ''Insufficient balance for token transfer'']
   \<and> tokenTransfer (test_config False) (calm_world 2000000) None None None
       \<noteq> returns [Err ''Insufficient balance for token transfer'']
   \<and> \<not> (10000000 :: int) < 5000 + accountCreationRent + 0"
proof -
  have a: "map_option instructions
     (submitted (tokenTransfer (test_config False) no_recipient_account_world None None None))
   = Some [SetComputeUnitLimit 200000, SetComputeUnitPrice 1000,
           CreateAssociatedTokenAccount ''Payer''
             ''ata/So11111111111111111111111111111111111111112''
             ''So11111111111111111111111111111111111111112''
             ''EPjFWdd5AufqSSqeM2qN1xzybapC8G4wEGGkZwyTDt1v'',
           TokenTransfer ''ata/Payer'' ''ata/So11111111111111111111111111111111111111112''
             ''Payer'' 1]"
    by (simp add: run_defs tokenTransfer_def no_recipient_account_world_def totalSOLNeeded_def
          displayAmount_def tokenTransfer_instructions_def Let_def)
  have w1: "loadWallet no_recipient_account_world (WALLET_PATH (test_config False)) = Inr ''Payer''"
    "getAssociatedTokenAddress no_recipient_account_world USDC_MINT DEFAULT_RECIPIENT_placeholder
       = Inr (''ata/'' @ DEFAULT_RECIPIENT_placeholder)"
    "getAccountInfo no_recipient_account_world (''ata/'' @ DEFAULT_RECIPIENT_placeholder) = Inr None"
    "getBalance no_recipient_account_world ''Payer'' = Inr 10000000"
    by (simp_all add: no_recipient_account_world_def calm_world_def
          DEFAULT_RECIPIENT_placeholder_def)
  have w2: "loadWallet (calm_world 2000000) (WALLET_PATH (test_config False)) = Inr ''Payer''"
    "getAssociatedTokenAddress (calm_world 2000000) USDC_MINT DEFAULT_RECIPIENT_placeholder
       = Inr (''ata/'' @ DEFAULT_RECIPIENT_placeholder)"
    "getAccountInfo (calm_world 2000000) (''ata/'' @ DEFAULT_RECIPIENT_placeholder)
       = Inr (Some (AccountInfo 2039280))"
    "getBalance (calm_world 2000000) ''Payer'' = Inr 2000000"
    by (simp_all add: calm_world_def)
  have r: "recipient_or_default (test_config False) None = DEFAULT_RECIPIENT_placeholder"
    by (simp add: recipient_or_default_def truthy_def test_config_def)
  have b: "tokenTransfer (test_config False) no_recipient_account_world None None None
       \<noteq> returns [Err ''Insufficient balance for token transfer'']"
    using C8_account_creation [where cfg = "test_config False"
        and w = no_recipient_account_world and recipientAddress = None
        and tokenMintAddress = None and amount = None and tokenMint = USDC_MINT
        and transferAmount = 1 and recipient = DEFAULT_RECIPIENT_placeholder
        and wallet = "''Payer''"
        and recipientTokenAccount = "''ata/'' @ DEFAULT_RECIPIENT_placeholder"
        and recipientAccountInfo = None and balance = 10000000 and tip = 0, OF refl] w1 r
    by (simp add: truthy_def test_config_def accountCreationRent_def)
  have c: "tokenTransfer (test_config False) (calm_world 2000000) None None None
       \<noteq> returns [Err ''Insufficient balance for token transfer'']"
    using C8_account_creation [where cfg = "test_config False"
        and w = "calm_world 2000000" and recipientAddress = None
        and tokenMintAddress = None and amount = None and tokenMint = USDC_MINT
        and transferAmount = 1 and recipient = DEFAULT_RECIPIENT_placeholder
        and wallet = "''Payer''"
        and recipientTokenAccount = "''ata/'' @ DEFAULT_RECIPIENT_placeholder"
        and recipientAccountInfo = "Some (AccountInfo 2039280)" and balance = 2000000
        and tip = 0, OF refl] w2 r
    by (simp add: truthy_def test_config_def)
  show ?thesis
    using a b c by (simp add: accountCreationRent_def)
qed

subsection \<open>The swap and the aggregator's errors\<close>

lemma jupiterSwap_http_error:
  assumes "loadWallet w (WALLET_PATH cfg) = Inr wallet"
    and "getBalance w wallet = Inr balance"
    and "jupiterSwap_totalNeeded + (if USE_LIGHTSPEED cfg then TIPS_VIBE_FEE else 0) \<le> balance"
    and "getQuote w = Inl e \<or> (getQuote w = Inr q \<and> postSwapInstructions w = Inl e)"
  shows "jupiterSwapSOLtoUSDC cfg w = returns (swap_catch e)"
proof -
  have g: "checkBalanceForOperations cfg w wallet jupiterSwap_totalNeeded (Some ''Jupiter swap'')
        = (Inr True, [])"
    using assms(2,3) by (auto simp: checkBalanceForOperations_def Let_def)
  have t: "jupiterSwap_try cfg w wallet [] = throws e []"
    using assms(4) by (auto simp: jupiterSwap_try_def)
  show ?thesis
    by (simp add: jupiterSwapSOLtoUSDC_def assms(1) g t Let_def throws_def returns_def)
qed

text \<open>
  C9. Once the guard has passed, when the quote call or the swap-instructions call of
  the aggregator fails with an HTTP status, the error is caught: the script returns
  without an exception, no transaction is built and nothing is submitted. For status 429
  the last line written is the rate-limit message and the bad-request message is not
  written; for status 400 it is the other way round.
\<close>

theorem C9_aggregator_errors:
  assumes "r = jupiterSwapSOLtoUSDC cfg w"
    and "loadWallet w (WALLET_PATH cfg) = Inr wallet"
    and "getBalance w wallet = Inr balance"
    and "jupiterSwap_totalNeeded + (if USE_LIGHTSPEED cfg then TIPS_VIBE_FEE else 0) \<le> balance"
    and "e = AxiosError msg (Some \<lparr> status = code, data = body \<rparr>)"
    and "getQuote w = Inl e \<or> (getQuote w = Inr q \<and> postSwapInstructions w = Inl e)"
  shows "submitted r = None \<and> send_calls r = 0 \<and> thrown r = None
       \<and> (code = 429 \<longrightarrow>
            last (stderr r) = Err ''Rate limited. Try again in a few seconds.''
          \<and> Err ''Bad request. Check your parameters.'' \<notin> set (stderr r))
       \<and> (code = 400 \<longrightarrow>
            last (stderr r) = Err ''Bad request. Check your parameters.''
          \<and> Err ''Rate limited. Try again in a few seconds.'' \<notin> set (stderr r))"
proof -
  have r: "r = returns (swap_catch e)"
    unfolding assms(1) by (rule jupiterSwap_http_error [OF assms(2,3,4,6)])
  show ?thesis
    unfolding r assms(5)
    by (cases body) (simp_all add: returns_def swap_catch_def)
qed

theorem C9_aggregator_errors_witness:
  "jupiterSwapSOLtoUSDC (test_config True) rate_limited_world
     = returns [Err ''Swap error: Request failed with status code 429'',
                Err ''API Error: Too Many Requests'',
                Err ''Rate limited. Try again in a few seconds.'']
   \<and> submitted (jupiterSwapSOLtoUSDC (test_config True) rate_limited_world) = None
   \<and> thrown (jupiterSwapSOLtoUSDC (test_config True) rate_limited_world) = None
   \<and> last (stderr (jupiterSwapSOLtoUSDC (test_config True) bad_request_world))
       = Err ''Bad request. Check your parameters.''
   \<and> submitted (jupiterSwapSOLtoUSDC (test_config True) bad_request_world) = None"
proof -
  have a: "jupiterSwapSOLtoUSDC (test_config True) rate_limited_world
     = returns [Err ''Swap error: Request failed with status code 429'',
                Err ''API Error: Too Many Requests'',
                Err ''Rate limited. Try again in a few seconds.'']"
    by (simp add: run_defs jupiterSwapSOLtoUSDC_def jupiterSwap_try_def rate_limited_world_def
          rate_limited_def swap_catch_def jupiterSwap_totalNeeded_def
          jupiterSwap_priorityFee_def Let_def)
  have w1: "loadWallet rate_limited_world (WALLET_PATH (test_config True)) = Inr ''Payer''"
    "getBalance rate_limited_world ''Payer'' = Inr 10000000"
    "getQuote rate_limited_world = Inl rate_limited"
    by (simp_all add: rate_limited_world_def calm_world_def)
  have w2: "loadWallet bad_request_world (WALLET_PATH (test_config True)) = Inr ''Payer''"
    "getBalance bad_request_world ''Payer'' = Inr 10000000"
    "getQuote bad_request_world
       = Inr \<lparr> outAmount = ''150000'', routeLabels = [''Orca''], priceImpactPct = ''0'' \<rparr>"
    "postSwapInstructions bad_request_world = Inl bad_request"
    by (simp_all add: bad_request_world_def calm_world_def)
  have n: "jupiterSwap_totalNeeded + (if USE_LIGHTSPEED (test_config True) then TIPS_VIBE_FEE else 0)
       \<le> 10000000"
    by (simp add: jupiterSwap_totalNeeded_def jupiterSwap_priorityFee_def transferAmount_SOL_def
          LAMPORTS_PER_SOL_def TIPS_VIBE_FEE_def test_config_def)
  have b: "submitted (jupiterSwapSOLtoUSDC (test_config True) rate_limited_world) = None
      \<and> thrown (jupiterSwapSOLtoUSDC (test_config True) rate_limited_world) = None"
    using C9_aggregator_errors [OF refl w1(1,2) n, of rate_limited
        "''Request failed with status code 429''" 429 "Some ''Too Many Requests''"] w1(3)
    by (simp add: rate_limited_def)
  have c: "last (stderr (jupiterSwapSOLtoUSDC (test_config True) bad_request_world))
       = Err ''Bad request. Check your parameters.''
      \<and> submitted (jupiterSwapSOLtoUSDC (test_config True) bad_request_world) = None"
    using C9_aggregator_errors [OF refl w2(1,2) n, of bad_request
        "''Request failed with status code 400''" 400 None] w2(3,4)
    by (simp add: bad_request_def)
  show ?thesis
    using a b c by simp
qed

subsection \<open>The default recipient\<close>



end
